theory Spec2Isabelle
  imports Complex_Main
begin

section \<open>JavaScript values and operators used by the map scripts\<close>

text \<open>
  The two scripts compute with JavaScript numbers and with the value \<open>undefined\<close> that
  reading an absent key or an index past the end of an array yields. A number is either
  \<open>NaN\<close> or an ordinary number; the scripts only compare numbers and take maxima,
  both exact on doubles, so an ordinary number is a real here (signed zeros are not told
  apart and the infinities are left out).
\<close>

datatype jsval = Undefined | NaN | Num real

text \<open>The only exception the modelled statements can raise: a property access on \<open>null\<close>.\<close>

datatype js_error = TypeError

text \<open>\<open>ToNumber\<close>, the coercion \<open>Math.max\<close> and \<open>>=\<close> apply to their operands.\<close>

definition ToNumber :: "jsval \<Rightarrow> jsval" where
  "ToNumber v = (case v of Undefined \<Rightarrow> NaN | NaN \<Rightarrow> NaN | Num x \<Rightarrow> Num x)"

text \<open>\<open>Math.max(a, b)\<close>: \<open>NaN\<close> as soon as one coerced argument is \<open>NaN\<close>.\<close>

definition Math_max :: "jsval \<Rightarrow> jsval \<Rightarrow> jsval" where
  "Math_max a b =
     (case ToNumber a of
        Num x \<Rightarrow> (case ToNumber b of Num y \<Rightarrow> Num (max x y) | _ \<Rightarrow> NaN)
      | _ \<Rightarrow> NaN)"

text \<open>\<open>a >= b\<close>: false as soon as one coerced operand is \<open>NaN\<close>.\<close>

definition js_ge :: "jsval \<Rightarrow> jsval \<Rightarrow> bool" where
  "js_ge a b =
     (case ToNumber a of
        Num x \<Rightarrow> (case ToNumber b of Num y \<Rightarrow> y \<le> x | _ \<Rightarrow> False)
      | _ \<Rightarrow> False)"

text \<open>\<open>xs[i]\<close> on an array of numbers: \<open>undefined\<close> past the end.\<close>

definition array_get :: "jsval list \<Rightarrow> nat \<Rightarrow> jsval" where
  "array_get xs i = (if i < length xs then xs ! i else Undefined)"

text \<open>\<open>obj[key]\<close> on an object whose values are numbers: \<open>undefined\<close> for an absent key.\<close>

definition prop_get :: "(string \<rightharpoonup> jsval) \<Rightarrow> string \<Rightarrow> jsval" where
  "prop_get obj k = (case obj k of None \<Rightarrow> Undefined | Some v \<Rightarrow> v)"

text \<open>
  \<open>'...' + xs[i]\<close> on an array of strings: string concatenation writes \<open>undefined\<close>
  for an index past the end.
\<close>

definition string_get :: "string list \<Rightarrow> nat \<Rightarrow> string" where
  "string_get xs i = (if i < length xs then xs ! i else ''undefined'')"


section \<open>mapping functions: the colour schemes\<close>

text \<open>
  \<open>class ColorScheme\<close> holds four fields. The keys in \<open>limits\<close> are numbers for
  \<open>ColorSchemeNumeric\<close> and category names for \<open>ColorSchemeCategorical\<close>; the two
  subclasses add no field.
\<close>

record 'k ColorScheme =
  limits :: "'k list"
  colors :: "string list"
  labels :: "string list"
  na_color :: string

text \<open>
  The constructor assigns its four arguments and checks nothing. The fourth parameter
  has the default \<open>'#888'\<close>, taken when the argument is left out (\<open>None\<close>). No
  statement of it can throw, so its completion is always the normal one.
\<close>

definition ColorScheme_constructor ::
  "'k list \<Rightarrow> string list \<Rightarrow> string list \<Rightarrow> string option \<Rightarrow> js_error + 'k ColorScheme" where
  "ColorScheme_constructor limits_asc colors_arg labels_arg na_color_arg =
     Inr \<lparr> limits = limits_asc, colors = colors_arg, labels = labels_arg,
           na_color = (case na_color_arg of None \<Rightarrow> ''#888'' | Some c \<Rightarrow> c) \<rparr>"

text \<open>
  \<open>legend_html\<close>: the loop \<open>for(const ii in [...Array(this.labels.length).keys()])\<close>
  visits the indices \<open>0 .. labels.length - 1\<close> in ascending order. Each round appends one
  entry, and the separator when \<open>ii < labels.length - 1\<close> (a comparison of numbers, the
  subtraction on integers).
\<close>

definition legend_html :: "'k ColorScheme \<Rightarrow> string" where
  "legend_html cs =
     fold (\<lambda>ii innerHTML.
             (let innerHTML =
                    innerHTML @ ''<b style=\"background:'' @ string_get (colors cs) ii
                      @ ''\"></b> '' @ string_get (labels cs) ii
              in if int ii < int (length (labels cs)) - 1
                 then innerHTML @ ''<br/>'' else innerHTML))
          [0..<length (labels cs)] ''''"

text \<open>
  \<open>ColorSchemeNumeric.color_from_value\<close>: the loop runs over the indices of
  \<open>colors\<close>; every threshold that \<open>value\<close> reaches overwrites the colour.
\<close>

definition ColorSchemeNumeric_color_from_value :: "jsval ColorScheme \<Rightarrow> jsval \<Rightarrow> string" where
  "ColorSchemeNumeric_color_from_value cs v =
     fold (\<lambda>ii val_color.
             if js_ge v (array_get (limits cs) ii) then colors cs ! ii else val_color)
          [0..<length (colors cs)] (na_color cs)"

text \<open>
  \<open>ColorSchemeCategorical.color_from_value\<close>, on category names: \<open>==\<close> between two
  strings is equality of strings, and a string is never \<open>==\<close> to the \<open>undefined\<close>
  read past the end of \<open>limits\<close>.
\<close>

definition ColorSchemeCategorical_color_from_value :: "string ColorScheme \<Rightarrow> string \<Rightarrow> string" where
  "ColorSchemeCategorical_color_from_value cs v =
     fold (\<lambda>ii val_color.
             if ii < length (limits cs) \<and> v = limits cs ! ii then colors cs ! ii
             else val_color)
          [0..<length (colors cs)] (na_color cs)"


section \<open>make travel time maps: the derived travel time\<close>

text \<open>
  A layer of the map is an object that may carry a \<open>feature\<close> key; a feature is a
  GeoJSON feature: its \<open>properties\<close> member is an object or \<open>null\<close> (\<open>None\<close>), its
  geometry is left abstract, as are the other members of the layer. The properties that
  the script reads and writes hold numbers.
\<close>

record 'g geo_feature =
  properties :: "(string \<rightharpoonup> jsval) option"
  geometry :: 'g

record ('g, 'o) map_layer =
  feature :: "'g geo_feature option"
  others :: 'o

text \<open>The travel time colour scheme of the script, built with the default \<open>na_color\<close>.\<close>

definition ttColorScheme :: "jsval ColorScheme" where
  "ttColorScheme =
     projr (ColorScheme_constructor
       [Num 0, Num 5, Num 10, Num 15, Num 20, Num 25, Num 30]
       [''#0868ac'', ''#5aabac'', ''#abedab'', ''#fda668'', ''#dd643c'', ''#b8432e'', ''#999999'']
       [''Under 5 min'', ''5 - 10 min'', ''10 - 15 min'', ''15 - 20 min'', ''20 - 25 min'',
        ''25 - 30 min'', ''Over 30 min'']
       None)"

text \<open>
  \<open>update_travel_times\<close>. The object \<open>layer.feature.properties\<close> is updated in place
  and the layer is returned; the model returns the updated layer. The first assignment
  to \<open>layer.feature.properties.tt\<close> throws when \<open>properties\<close> is \<open>null\<close>, before
  anything is written. The callback of \<open>forEach\<close> reads the running maximum back from
  the key \<open>tt\<close> of the same object that holds the per-destination values.
\<close>

definition update_travel_times ::
  "('g, 'o) map_layer \<Rightarrow> string list \<Rightarrow> js_error + ('g, 'o) map_layer" where
  "update_travel_times layer destinations =
     (case feature layer of
        None \<Rightarrow> Inr layer
      | Some f \<Rightarrow>
          (case properties f of
             None \<Rightarrow> Inl TypeError
           | Some props \<Rightarrow>
               Inr (layer\<lparr> feature := Some (f\<lparr> properties := Some
                 (if length destinations = 0 then props(''tt'' \<mapsto> Num 999)
                  else fold (\<lambda>destination p.
                               p(''tt'' \<mapsto> Math_max (prop_get p ''tt'') (prop_get p destination)))
                            destinations (props(''tt'' \<mapsto> Num 0))) \<rparr>) \<rparr>)))"

text \<open>
  The array passed as \<open>destinations\<close>, after the call: the body reads its length and
  walks it with \<open>forEach\<close>, and the callback does not touch it.
\<close>

definition destinations_after :: "('g, 'o) map_layer \<Rightarrow> string list \<Rightarrow> string list" where
  "destinations_after layer destinations = destinations"

text \<open>\<open>layer.feature.properties.tt\<close> read from a layer, \<open>undefined\<close> where there is none.\<close>

definition tt_of :: "('g, 'o) map_layer \<Rightarrow> jsval" where
  "tt_of layer =
     (case feature layer of
        None \<Rightarrow> Undefined
      | Some f \<Rightarrow> (case properties f of None \<Rightarrow> Undefined | Some props \<Rightarrow> prop_get props ''tt''))"

text \<open>
  \<open>data_layer.eachLayer((layer) => update_travel_times(layer, map_terms))\<close>: the layers
  are visited one after the other. An exception ends the pass: the layers before keep
  their update, the others are left as they were. The result is the layers after the
  pass and the exception that ended it, if any.
\<close>

fun eachLayer_update_travel_times ::
  "('g, 'o) map_layer list \<Rightarrow> string list \<Rightarrow> ('g, 'o) map_layer list \<times> js_error option" where
  "eachLayer_update_travel_times [] map_terms = ([], None)"
| "eachLayer_update_travel_times (layer # rest) map_terms =
     (case update_travel_times layer map_terms of
        Inl e \<Rightarrow> (layer # rest, Some e)
      | Inr layer' \<Rightarrow>
          (case eachLayer_update_travel_times rest map_terms of
             (rest', r) \<Rightarrow> (layer' # rest', r)))"

text \<open>\<open>tt_style\<close>: the fill colour of a feature, from its \<open>tt\<close>.\<close>

definition tt_style_fillColor :: "('g, 'o) map_layer \<Rightarrow> string" where
  "tt_style_fillColor layer = ColorSchemeNumeric_color_from_value ttColorScheme (tt_of layer)"


section \<open>Auxiliary notions for the statements\<close>

text \<open>
  The value that the \<open>forEach\<close> loop of \<open>update_travel_times\<close> leaves in \<open>tt\<close>,
  as a function of the properties before the call, the destinations still to visit and
  the running maximum: a destination named \<open>tt\<close> reads the running maximum itself.
\<close>

fun running_max :: "(string \<rightharpoonup> jsval) \<Rightarrow> string list \<Rightarrow> jsval \<Rightarrow> jsval" where
  "running_max props [] acc = acc"
| "running_max props (d # ds) acc =
     running_max props ds (Math_max acc (if d = ''tt'' then acc else prop_get props d))"

text \<open>One entry of the legend: the colour swatch, a space and the label.\<close>

definition legend_entry :: "string \<Rightarrow> string \<Rightarrow> string" where
  "legend_entry color label = ''<b style=\"background:'' @ color @ ''\"></b> '' @ label"

text \<open>
  Entries joined with a separator: one separator between every two consecutive entries,
  none before the first and none after the last.
\<close>

fun join_sep :: "'a list \<Rightarrow> 'a list list \<Rightarrow> 'a list" where
  "join_sep sep [] = []"
| "join_sep sep [x] = x"
| "join_sep sep (x # y # ys) = x @ sep @ join_sep sep (y # ys)"


section \<open>Lemmas on the loops\<close>

subsection \<open>The running maximum\<close>

lemma running_max_cong:
  "(\<And>k. k \<noteq> ''tt'' \<Longrightarrow> p k = q k) \<Longrightarrow> running_max p ds acc = running_max q ds acc"
  by (induction ds arbitrary: acc) (simp_all add: prop_get_def)

lemma running_max_upd [simp]:
  "running_max (p(''tt'' \<mapsto> x)) ds acc = running_max p ds acc"
  by (rule running_max_cong) simp

lemma fold_tt_running_max:
  "p ''tt'' = Some acc \<Longrightarrow>
   fold (\<lambda>destination p. p(''tt'' \<mapsto> Math_max (prop_get p ''tt'') (prop_get p destination))) ds p
     = p(''tt'' \<mapsto> running_max p ds acc)"
proof (induction ds arbitrary: p acc)
  case Nil
  then show ?case by (simp add: fun_upd_idem)
next
  case (Cons d ds)
  define F :: "string \<Rightarrow> (string \<rightharpoonup> jsval) \<Rightarrow> (string \<rightharpoonup> jsval)"
    where "F = (\<lambda>destination p. p(''tt'' \<mapsto> Math_max (prop_get p ''tt'') (prop_get p destination)))"
  define a where "a = Math_max acc (if d = ''tt'' then acc else prop_get p d)"
  define q where "q = p(''tt'' \<mapsto> a)"
  have step: "F d p = q"
    using Cons.prems by (simp add: F_def q_def a_def prop_get_def)
  have q_tt: "q ''tt'' = Some a"
    by (simp add: q_def)
  have "fold F (d # ds) p = fold F ds q"
    by (simp add: step)
  also have "\<dots> = q(''tt'' \<mapsto> running_max q ds a)"
    unfolding F_def by (rule Cons.IH [of q a, OF q_tt])
  also have "\<dots> = p(''tt'' \<mapsto> running_max p ds a)"
    by (simp add: q_def)
  also have "running_max p ds a = running_max p (d # ds) acc"
    by (simp add: a_def)
  finally show ?case
    unfolding F_def .
qed

lemma update_travel_times_props:
  assumes "feature layer = Some f" and "properties f = Some props"
  shows "update_travel_times layer ds =
     Inr (layer\<lparr> feature := Some (f\<lparr> properties := Some
        (props(''tt'' \<mapsto> (if ds = [] then Num 999 else running_max props ds (Num 0)))) \<rparr>) \<rparr>)"
proof -
  have "(props(''tt'' \<mapsto> Num 0)) ''tt'' = Some (Num 0)" by simp
  then have "fold (\<lambda>destination p.
                  p(''tt'' \<mapsto> Math_max (prop_get p ''tt'') (prop_get p destination)))
             ds (props(''tt'' \<mapsto> Num 0))
        = props(''tt'' \<mapsto> running_max props ds (Num 0))"
    by (simp only: fold_tt_running_max [of "props(''tt'' \<mapsto> Num 0)" "Num 0" ds]
          running_max_upd fun_upd_upd)
  then show ?thesis
    using assms by (simp only: update_travel_times_def option.case length_0_conv if_distrib if_cancel) 
qed

lemma Math_max_Num [simp]: "Math_max (Num a) (Num b) = Num (max a b)"
  by (simp add: Math_max_def ToNumber_def)

lemma Math_max_NaN [simp]: "Math_max NaN b = NaN" "Math_max a NaN = NaN" "Math_max a Undefined = NaN"
  by (simp_all add: Math_max_def ToNumber_def split: jsval.splits)

lemma running_max_NaN [simp]: "running_max props ds NaN = NaN"
  by (induction ds) simp_all

lemma running_max_missing:
  "d \<in> set ds \<Longrightarrow> d \<noteq> ''tt'' \<Longrightarrow> props d = None \<Longrightarrow> running_max props ds acc = NaN"
  by (induction ds arbitrary: acc) (auto simp: prop_get_def)

lemma running_max_values:
  "''tt'' \<notin> set ds \<Longrightarrow> map props ds = map (\<lambda>v. Some (Num v)) vs \<Longrightarrow>
   running_max props ds (Num a) = Num (Max (insert a (set vs)))"
proof (induction ds arbitrary: vs a)
  case Nil
  then show ?case by simp
next
  case (Cons d ds)
  then obtain v vs' where vs: "vs = v # vs'" by (cases vs) auto
  with Cons.prems have d: "props d = Some (Num v)" and rest: "map props ds = map (\<lambda>v. Some (Num v)) vs'"
    and tt: "d \<noteq> ''tt''" "''tt'' \<notin> set ds"
    by auto
  have "running_max props (d # ds) (Num a) = running_max props ds (Num (max a v))"
    using d tt by (simp add: prop_get_def)
  also have "\<dots> = Num (Max (insert (max a v) (set vs')))"
    by (rule Cons.IH [OF tt(2) rest])
  also have "Max (insert (max a v) (set vs')) = Max (insert a (set vs))"
  proof (cases "vs' = []")
    case True
    then show ?thesis by (simp add: vs)
  next
    case False
    then show ?thesis by (simp add: vs max.assoc)
  qed
  finally show ?case .
qed

lemma update_travel_times_again:
  assumes "update_travel_times layer ds = Inr layer'"
  shows "update_travel_times layer' ds = Inr layer'"
proof (cases "feature layer")
  case None
  with assms show ?thesis by (simp add: update_travel_times_def)
next
  case (Some f)
  show ?thesis
  proof (cases "properties f")
    case None
    with Some assms show ?thesis by (simp add: update_travel_times_def)
  next
    case (Some props)
    define r where "r = (if ds = [] then Num 999 else running_max props ds (Num 0))"
    define f' where "f' = f\<lparr> properties := Some (props(''tt'' \<mapsto> r)) \<rparr>"
    from assms \<open>feature layer = Some f\<close> Some
    have l': "layer' = layer\<lparr> feature := Some f' \<rparr>"
      by (simp add: update_travel_times_props r_def f'_def)
    have "feature layer' = Some f'" and "properties f' = Some (props(''tt'' \<mapsto> r))"
      by (simp_all add: l' f'_def)
    from update_travel_times_props [OF this, of ds] show ?thesis
      by (simp add: l' f'_def r_def)
  qed
qed

subsection \<open>Loops in which the last match wins\<close>

lemma fold_upt_last_wins:
  assumes "i < n" and "P i" and "\<And>j. i < j \<Longrightarrow> j < n \<Longrightarrow> \<not> P j"
  shows "fold (\<lambda>ii c. if P ii then g ii else c) [0..<n] c0 = g i"
  using assms
proof (induction n)
  case 0
  then show ?case by simp
next
  case (Suc n)
  show ?case
  proof (cases "i = n")
    case True
    with Suc.prems show ?thesis by simp
  next
    case False
    with Suc.prems have "i < n" and "\<not> P n" by auto
    with Suc.IH Suc.prems show ?thesis by simp
  qed
qed

lemma fold_upt_no_match:
  assumes "\<And>j. j < n \<Longrightarrow> \<not> P j"
  shows "fold (\<lambda>ii c. if P ii then g ii else c) [0..<n] c0 = c0"
  using assms by (induction n) simp_all

lemma js_ge_Num [simp]: "js_ge (Num x) (Num y) \<longleftrightarrow> y \<le> x"
  by (simp add: js_ge_def ToNumber_def)

lemma numeric_last_threshold:
  assumes lim: "limits cs = map Num ts" and len: "length (colors cs) = length ts"
    and i: "i < length ts" and le: "ts ! i \<le> x"
    and later: "\<And>j. i < j \<Longrightarrow> j < length ts \<Longrightarrow> x < ts ! j"
  shows "ColorSchemeNumeric_color_from_value cs (Num x) = colors cs ! i"
  unfolding ColorSchemeNumeric_color_from_value_def
proof (rule fold_upt_last_wins [where i = i])
  show "i < length (colors cs)" using i len by simp
  show "js_ge (Num x) (array_get (limits cs) i)"
    using i le by (simp add: lim array_get_def)
  show "\<not> js_ge (Num x) (array_get (limits cs) j)" if "i < j" "j < length (colors cs)" for j
    using that later [of j] len by (simp add: lim array_get_def)
qed

lemma numeric_below_all:
  assumes lim: "limits cs = map Num ts" and len: "length (colors cs) = length ts"
    and below: "\<And>j. j < length ts \<Longrightarrow> x < ts ! j"
  shows "ColorSchemeNumeric_color_from_value cs (Num x) = na_color cs"
  unfolding ColorSchemeNumeric_color_from_value_def
proof (rule fold_upt_no_match)
  show "\<not> js_ge (Num x) (array_get (limits cs) j)" if "j < length (colors cs)" for j
    using that below [of j] len by (simp add: lim array_get_def)
qed

subsection \<open>The travel time colour scheme\<close>

lemma ttColorScheme_fields:
  "limits ttColorScheme = map Num [0, 5, 10, 15, 20, 25, 30]"
  "colors ttColorScheme =
     [''#0868ac'', ''#5aabac'', ''#abedab'', ''#fda668'', ''#dd643c'', ''#b8432e'', ''#999999'']"
  "labels ttColorScheme =
     [''Under 5 min'', ''5 - 10 min'', ''10 - 15 min'', ''15 - 20 min'', ''20 - 25 min'',
      ''25 - 30 min'', ''Over 30 min'']"
  "na_color ttColorScheme = ''#888''"
  by (simp_all add: ttColorScheme_def ColorScheme_constructor_def)

lemma ttColorScheme_999: "ColorSchemeNumeric_color_from_value ttColorScheme (Num 999) = ''#999999''"
proof -
  have "ColorSchemeNumeric_color_from_value ttColorScheme (Num 999) = colors ttColorScheme ! 6"
    by (rule numeric_last_threshold [where ts = "[0, 5, 10, 15, 20, 25, 30]"])
       (simp_all add: ttColorScheme_fields nth_Cons')
  then show ?thesis by (simp add: ttColorScheme_fields)
qed

subsection \<open>The legend as a join\<close>

lemma fold_append_each:
  "fold (\<lambda>i acc. acc @ h i) xs acc0 = acc0 @ concat (map h xs)"
  by (induction xs arbitrary: acc0) simp_all

lemma join_sep_snoc:
  "join_sep sep (xs @ [x]) = (if xs = [] then x else join_sep sep xs @ sep @ x)"
  by (induction sep xs rule: join_sep.induct) simp_all

lemma concat_upt_join_sep:
  "m \<le> n \<Longrightarrow>
   concat (map (\<lambda>i. e i @ (if int i < int n - 1 then sep else [])) [0..<m])
     = join_sep sep (map e [0..<m]) @ (if 0 < m \<and> m < n then sep else [])"
proof (induction m)
  case 0
  then show ?case by simp
next
  case (Suc m)
  then have "m < n" by simp
  then have "int m < int n - 1 \<longleftrightarrow> Suc m < n" by auto
  with Suc show ?case
    by (auto simp: join_sep_snoc)
qed

lemma legend_html_join:
  "legend_html cs = join_sep ''<br/>''
     (map (\<lambda>i. legend_entry (string_get (colors cs) i) (labels cs ! i)) [0..<length (labels cs)])"
proof -
  have "legend_html cs = concat (map (\<lambda>i. legend_entry (string_get (colors cs) i) (string_get (labels cs) i)
           @ (if int i < int (length (labels cs)) - 1 then ''<br/>'' else [])) [0..<length (labels cs)])"
    unfolding legend_html_def Let_def legend_entry_def
    using fold_append_each [of "\<lambda>i. (''<b style=\"background:'' @ string_get (colors cs) i
                      @ ''\"></b> '' @ string_get (labels cs) i) @ (if int i < int (length (labels cs)) - 1 then ''<br/>'' else [])" "[0..<length (labels cs)]" "[]"]
    by (simp add: if_distrib [of "\<lambda>s. _ @ s"] cong: if_cong)
  also have "\<dots> = join_sep ''<br/>'' (map (\<lambda>i. legend_entry (string_get (colors cs) i) (string_get (labels cs) i)) [0..<length (labels cs)])"
    using concat_upt_join_sep [of "length (labels cs)" "length (labels cs)"] by simp
  also have "map (\<lambda>i. legend_entry (string_get (colors cs) i) (string_get (labels cs) i)) [0..<length (labels cs)]
     = map (\<lambda>i. legend_entry (string_get (colors cs) i) (labels cs ! i)) [0..<length (labels cs)]"
    by (simp add: string_get_def)
  finally show ?thesis .
qed


section \<open>Layers without a feature\<close>

text \<open>
  C10. A layer object without a \<open>feature\<close> key is returned exactly as it was,
  whatever the active destinations: the call completes normally, raises nothing and
  creates no \<open>tt\<close> field.
\<close>

theorem update_travel_times_no_feature:
  assumes "feature layer = None"
  shows "update_travel_times layer destinations = Inr layer"
  using assms by (simp add: update_travel_times_def)

theorem update_travel_times_no_feature_witness:
  "feature \<lparr> feature = None :: unit geo_feature option, others = () \<rparr> = None \<and>
   update_travel_times \<lparr> feature = None :: unit geo_feature option, others = () \<rparr>
       [''groceries'', ''parks'']
     = Inr \<lparr> feature = None, others = () \<rparr> \<and>
   update_travel_times \<lparr> feature = None :: unit geo_feature option, others = () \<rparr> []
     = Inr \<lparr> feature = None, others = () \<rparr>"
proof -
  have h: "feature \<lparr> feature = None :: unit geo_feature option, others = () \<rparr> = None"
    by simp
  show ?thesis
    using h update_travel_times_no_feature [OF h, of "[''groceries'', ''parks'']"]
      update_travel_times_no_feature [OF h, of "[]"]
    by simp
qed


section \<open>The derived travel time of a feature\<close>

text \<open>
  C1. Take a layer that carries a feature whose properties object holds, for the active
  destinations, the non-negative numbers \<open>vs\<close> (in the order of the destinations),
  the key \<open>tt\<close> of the derived field not being itself one of the destinations. Then
  \<open>update_travel_times\<close> completes and leaves in \<open>tt\<close> the sentinel 999 when no
  destination is active, and the maximum of the values \<open>vs\<close> otherwise.
\<close>

theorem update_travel_times_max:
  assumes "feature layer = Some f" and "properties f = Some props"
    and "''tt'' \<notin> set destinations"
    and "map props destinations = map (\<lambda>v. Some (Num v)) vs"
    and "\<forall>v \<in> set vs. 0 \<le> v"
  shows "\<exists>layer'. update_travel_times layer destinations = Inr layer' \<and>
           tt_of layer' = (if destinations = [] then Num 999 else Num (Max (set vs)))"
proof -
  have "running_max props destinations (Num 0) = Num (Max (set vs))" if "destinations \<noteq> []"
  proof -
    from that assms(4) have ne: "vs \<noteq> []" by auto
    then obtain v where v: "v \<in> set vs" by (cases vs) auto
    with assms(5) have "0 \<le> v" by simp
    also have "v \<le> Max (set vs)" using v by simp
    finally have "max 0 (Max (set vs)) = Max (set vs)" by simp
    with ne have "Max (insert 0 (set vs)) = Max (set vs)" by simp
    with running_max_values [OF assms(3,4), of 0] show ?thesis by simp
  qed
  then show ?thesis
    by (simp add: update_travel_times_props [OF assms(1,2)] tt_of_def prop_get_def)
qed

theorem update_travel_times_max_witness:
  "set [''groceries'', ''parks''] \<inter> {''tt''} = {} \<and> (0::real) \<le> 4 \<and> (0::real) \<le> 12 \<and>
   (\<exists>layer'. update_travel_times
        \<lparr> feature = Some \<lparr> properties = Some [''groceries'' \<mapsto> Num 4, ''parks'' \<mapsto> Num 12, ''cafes'' \<mapsto> Num 2],
                           geometry = () \<rparr>, others = () \<rparr>
        [''groceries'', ''parks''] = Inr layer' \<and> tt_of layer' = Num 12) \<and>
   (\<exists>layer'. update_travel_times
        \<lparr> feature = Some \<lparr> properties = Some [''groceries'' \<mapsto> Num 4, ''parks'' \<mapsto> Num 12, ''cafes'' \<mapsto> Num 2],
                           geometry = () \<rparr>, others = () \<rparr>
        [] = Inr layer' \<and> tt_of layer' = Num 999)"
proof -
  let ?props = "[''groceries'' \<mapsto> Num 4, ''parks'' \<mapsto> Num 12, ''cafes'' \<mapsto> Num 2]"
  let ?f = "\<lparr> properties = Some ?props, geometry = () \<rparr>"
  let ?layer = "\<lparr> feature = Some ?f, others = () \<rparr>"
  have f: "feature ?layer = Some ?f" and p: "properties ?f = Some ?props"
    by simp_all
  have tt: "''tt'' \<notin> set [''groceries'', ''parks'']" and tt0: "''tt'' \<notin> set []"
    by simp_all
  have vals: "map ?props [''groceries'', ''parks''] = map (\<lambda>v. Some (Num v)) [4, 12]"
    and vals0: "map ?props [] = map (\<lambda>v. Some (Num v)) []"
    by simp_all
  have nonneg: "\<forall>v \<in> set [4, 12 :: real]. 0 \<le> v" and nonneg0: "\<forall>v \<in> set ([] :: real list). 0 \<le> v"
    by simp_all
  show ?thesis
    using update_travel_times_max [OF f p tt vals nonneg]
      update_travel_times_max [OF f p tt0 vals0 nonneg0]
    by simp
qed

text \<open>
  C4, as the code has it. A value missing for an active destination is no failure of
  \<open>update_travel_times\<close>: at the feature \<open>{groceries: 4}\<close> with \<open>parks\<close> active the
  call completes normally and stores \<open>NaN\<close>.
\<close>

theorem update_travel_times_missing_value_completes:
  "update_travel_times
      \<lparr> feature = Some \<lparr> properties = Some [''groceries'' \<mapsto> Num 4], geometry = () \<rparr>, others = () \<rparr>
      [''parks'']
   = Inr \<lparr> feature = Some \<lparr> properties = Some [''groceries'' \<mapsto> Num 4, ''tt'' \<mapsto> NaN],
                             geometry = () \<rparr>, others = () \<rparr>"
  by (simp add: update_travel_times_def prop_get_def)

text \<open>
  C4, amended. Whenever an active destination (other than the key \<open>tt\<close> itself) has no
  entry in the properties of the feature, \<open>update_travel_times\<close> completes normally
  and the derived field is \<open>NaN\<close>: the missing entry is read as \<open>undefined\<close>,
  \<open>Math.max\<close> turns it into \<open>NaN\<close>, and no later value brings a number back.
\<close>

theorem update_travel_times_missing_value:
  assumes "feature layer = Some f" and "properties f = Some props"
    and "d \<in> set destinations" and "d \<noteq> ''tt''" and "props d = None"
  shows "\<exists>layer'. update_travel_times layer destinations = Inr layer' \<and> tt_of layer' = NaN"
proof -
  from assms(3) have "destinations \<noteq> []" by auto
  moreover have "running_max props destinations (Num 0) = NaN"
    using assms(3,4,5) by (rule running_max_missing [of d destinations props])
  ultimately show ?thesis
    by (simp add: update_travel_times_props [OF assms(1,2)] tt_of_def prop_get_def)
qed

theorem update_travel_times_missing_value_witness:
  "''parks'' \<noteq> ''tt'' \<and> [''groceries'' \<mapsto> Num 4, ''cafes'' \<mapsto> Num 2] ''parks'' = None \<and>
   (\<exists>layer'. update_travel_times
        \<lparr> feature = Some \<lparr> properties = Some [''groceries'' \<mapsto> Num 4, ''cafes'' \<mapsto> Num 2],
                           geometry = () \<rparr>, others = () \<rparr>
        [''groceries'', ''parks'', ''cafes''] = Inr layer' \<and> tt_of layer' = NaN)"
proof -
  let ?props = "[''groceries'' \<mapsto> Num 4, ''cafes'' \<mapsto> Num 2]"
  let ?f = "\<lparr> properties = Some ?props, geometry = () \<rparr>"
  let ?layer = "\<lparr> feature = Some ?f, others = () \<rparr>"
  have f: "feature ?layer = Some ?f" and p: "properties ?f = Some ?props"
    by simp_all
  have d: "''parks'' \<in> set [''groceries'', ''parks'', ''cafes'']" and tt: "''parks'' \<noteq> ''tt''"
    and missing: "?props ''parks'' = None"
    by simp_all
  show ?thesis
    using update_travel_times_missing_value [of ?layer ?f ?props "''parks''", OF f p d tt missing] tt missing
    by simp
qed

text \<open>
  C9. On a layer that carries a feature, \<open>update_travel_times\<close> writes the key
  \<open>tt\<close> of the properties and nothing else: every other property keeps its value (or
  its absence), the geometry and the other members of the layer are as before, and so is
  the array of active destinations. When the properties are \<open>null\<close> the call throws
  before it has written anything.
\<close>

theorem update_travel_times_frame:
  assumes "feature layer = Some f"
  shows "(case properties f of
            None \<Rightarrow> update_travel_times layer destinations = Inl TypeError
          | Some props \<Rightarrow>
              (\<exists>layer' f' props'.
                 update_travel_times layer destinations = Inr layer' \<and>
                 feature layer' = Some f' \<and> properties f' = Some props' \<and>
                 (\<forall>k. k \<noteq> ''tt'' \<longrightarrow> props' k = props k) \<and>
                 geometry f' = geometry f \<and> others layer' = others layer)) \<and>
         destinations_after layer destinations = destinations"
proof (cases "properties f")
  case None
  with assms show ?thesis
    by (simp add: update_travel_times_def destinations_after_def)
next
  case (Some props)
  show ?thesis
    by (simp add: Some update_travel_times_props [OF assms Some] destinations_after_def)
qed

theorem update_travel_times_frame_witness:
  "(\<exists>layer' f' props'.
      update_travel_times
        \<lparr> feature = Some \<lparr> properties = Some [''groceries'' \<mapsto> Num 4, ''parks'' \<mapsto> Num 12, ''tt'' \<mapsto> Num 999],
                           geometry = ''polygon'' \<rparr>, others = ''weight'' \<rparr>
        [''groceries'', ''parks''] = Inr layer' \<and>
      feature layer' = Some f' \<and> properties f' = Some props' \<and>
      props' ''groceries'' = Some (Num 4) \<and> props' ''parks'' = Some (Num 12) \<and>
      props' ''cafes'' = None \<and>
      geometry f' = ''polygon'' \<and> others layer' = ''weight'') \<and>
   update_travel_times
        \<lparr> feature = Some \<lparr> properties = None, geometry = ''polygon'' \<rparr>, others = ''weight'' \<rparr>
        [''groceries'', ''parks''] = Inl TypeError \<and>
   destinations_after
        \<lparr> feature = Some \<lparr> properties = Some [''groceries'' \<mapsto> Num 4, ''parks'' \<mapsto> Num 12, ''tt'' \<mapsto> Num 999],
                           geometry = ''polygon'' \<rparr>, others = ''weight'' \<rparr>
        [''groceries'', ''parks''] = [''groceries'', ''parks'']"
proof -
  let ?props = "[''groceries'' \<mapsto> Num 4, ''parks'' \<mapsto> Num 12, ''tt'' \<mapsto> Num 999]"
  let ?f = "\<lparr> properties = Some ?props, geometry = ''polygon'' \<rparr>"
  let ?layer = "\<lparr> feature = Some ?f, others = ''weight'' \<rparr>"
  let ?g = "\<lparr> properties = None, geometry = ''polygon'' \<rparr>"
  let ?broken = "\<lparr> feature = Some ?g, others = ''weight'' \<rparr>"
  have f: "feature ?layer = Some ?f" and g: "feature ?broken = Some ?g"
    by simp_all
  from update_travel_times_frame [OF f, of "[''groceries'', ''parks'']"]
  obtain layer' f' props' where
    "update_travel_times ?layer [''groceries'', ''parks''] = Inr layer'"
    "feature layer' = Some f'" "properties f' = Some props'"
    "\<forall>k. k \<noteq> ''tt'' \<longrightarrow> props' k = ?props k"
    "geometry f' = ''polygon''" "others layer' = ''weight''"
    and after: "destinations_after ?layer [''groceries'', ''parks''] = [''groceries'', ''parks'']"
    by auto
  moreover from this(4) have "props' ''groceries'' = Some (Num 4)" "props' ''parks'' = Some (Num 12)"
    "props' ''cafes'' = None"
    by simp_all
  moreover from update_travel_times_frame [OF g, of "[''groceries'', ''parks'']"]
  have "update_travel_times ?broken [''groceries'', ''parks''] = Inl TypeError"
    by simp
  ultimately show ?thesis
    by blast
qed


section \<open>Recomputing all layers\<close>

text \<open>
  C7. A second pass of \<open>update_travel_times\<close> over all layers with the same active
  destinations changes nothing: it leaves every layer, hence every \<open>tt\<close>, as the first
  pass left it, and ends the same way.
\<close>

theorem eachLayer_update_travel_times_idempotent:
  "eachLayer_update_travel_times (fst (eachLayer_update_travel_times layers map_terms)) map_terms
     = eachLayer_update_travel_times layers map_terms \<and>
   map tt_of (fst (eachLayer_update_travel_times
                (fst (eachLayer_update_travel_times layers map_terms)) map_terms))
     = map tt_of (fst (eachLayer_update_travel_times layers map_terms))"
proof -
  have "eachLayer_update_travel_times (fst (eachLayer_update_travel_times layers map_terms)) map_terms
     = eachLayer_update_travel_times layers map_terms"
  proof (induction layers)
    case Nil
    then show ?case by simp
  next
    case (Cons layer rest)
    show ?case
    proof (cases "update_travel_times layer map_terms")
      case (Inl e)
      then show ?thesis by simp
    next
      case (Inr layer')
      obtain rest' r where rest: "eachLayer_update_travel_times rest map_terms = (rest', r)"
        by (cases "eachLayer_update_travel_times rest map_terms")
      with Cons.IH have "eachLayer_update_travel_times rest' map_terms = (rest', r)"
        by simp
      with Inr rest update_travel_times_again [OF Inr] show ?thesis
        by simp
    qed
  qed
  then show ?thesis by simp
qed


section \<open>Colour schemes\<close>

text \<open>
  C5, as the code has it. The constructor accepts sequences of different lengths: two
  limits, one colour and three labels give a colour scheme that holds them.
\<close>

theorem ColorScheme_constructor_accepts_mismatch:
  "ColorScheme_constructor [Num 0, Num 5] [''#0868ac''] [''Under 5 min'', ''5 - 10 min'', ''Over 10 min''] None
     = Inr \<lparr> limits = [Num 0, Num 5], colors = [''#0868ac''],
             labels = [''Under 5 min'', ''5 - 10 min'', ''Over 10 min''], na_color = ''#888'' \<rparr>"
  by (simp add: ColorScheme_constructor_def)

text \<open>
  C5, amended. Construction of a colour scheme never fails, whatever the lengths of
  the three sequences, and the scheme holds the three sequences exactly as given:
  nothing is rejected and nothing is truncated.
\<close>

theorem ColorScheme_constructor_stores_arguments:
  "\<exists>cs. ColorScheme_constructor limits_asc colors_arg labels_arg na_color_arg = Inr cs \<and>
         limits cs = limits_asc \<and> colors cs = colors_arg \<and> labels cs = labels_arg \<and>
         na_color cs = (case na_color_arg of None \<Rightarrow> ''#888'' | Some c \<Rightarrow> c)"
  by (simp add: ColorScheme_constructor_def)

text \<open>
  C3, as the code has it. In the travel time colour scheme the sentinel 999 does not
  get the fallback colour.
\<close>

theorem ttColorScheme_sentinel_not_fallback:
  "ColorSchemeNumeric_color_from_value ttColorScheme (Num 999) \<noteq> na_color ttColorScheme"
  by (simp add: ttColorScheme_999 ttColorScheme_fields)

text \<open>
  C3, amended. With no active destination every feature gets \<open>tt = 999\<close>, and the
  travel time colour scheme gives 999 the colour \<open>#999999\<close> of its last bucket (from
  30, \<open>Over 30 min\<close>), not the fallback colour \<open>#888\<close>.
\<close>

theorem ttColorScheme_sentinel_last_bucket:
  assumes "feature layer = Some f" and "properties f = Some props"
  shows "\<exists>layer'. update_travel_times layer [] = Inr layer' \<and> tt_of layer' = Num 999 \<and>
           tt_style_fillColor layer' = ''#999999'' \<and>
           colors ttColorScheme ! 6 = ''#999999'' \<and> labels ttColorScheme ! 6 = ''Over 30 min'' \<and>
           limits ttColorScheme ! 6 = Num 30 \<and> na_color ttColorScheme = ''#888''"
  by (simp add: update_travel_times_props [OF assms] tt_style_fillColor_def tt_of_def prop_get_def
        ttColorScheme_999 ttColorScheme_fields)

theorem ttColorScheme_sentinel_last_bucket_witness:
  "\<exists>layer'. update_travel_times
       \<lparr> feature = Some \<lparr> properties = Some [''groceries'' \<mapsto> Num 4, ''parks'' \<mapsto> Num 12],
                          geometry = () \<rparr>, others = () \<rparr> [] = Inr layer' \<and>
     tt_of layer' = Num 999 \<and> tt_style_fillColor layer' = ''#999999'' \<and>
     colors ttColorScheme ! 6 = ''#999999'' \<and> labels ttColorScheme ! 6 = ''Over 30 min'' \<and>
     limits ttColorScheme ! 6 = Num 30 \<and> na_color ttColorScheme = ''#888''"
proof -
  let ?props = "[''groceries'' \<mapsto> Num 4, ''parks'' \<mapsto> Num 12]"
  let ?f = "\<lparr> properties = Some ?props, geometry = () \<rparr>"
  let ?layer = "\<lparr> feature = Some ?f, others = () \<rparr>"
  have f: "feature ?layer = Some ?f" and p: "properties ?f = Some ?props"
    by simp_all
  show ?thesis
    by (rule ttColorScheme_sentinel_last_bucket [OF f p])
qed

text \<open>
  C2. Let the limits of a numeric colour scheme be the numbers \<open>ts\<close>, strictly
  ascending, with as many colours as limits. A value below the first limit gets the
  fallback colour; a value from limit \<open>i\<close> up to, but not reaching, limit \<open>i + 1\<close>
  gets colour \<open>i\<close>; a value from the last limit on gets the last colour. A value equal
  to a limit belongs to the bucket that starts there.
\<close>

theorem ColorSchemeNumeric_buckets:
  assumes lim: "limits cs = map Num ts" and asc: "sorted_wrt (<) ts"
    and len: "length (colors cs) = length ts"
  shows "(ts \<noteq> [] \<and> x < ts ! 0 \<longrightarrow>
            ColorSchemeNumeric_color_from_value cs (Num x) = na_color cs) \<and>
         (\<forall>i. Suc i < length ts \<and> ts ! i \<le> x \<and> x < ts ! Suc i \<longrightarrow>
            ColorSchemeNumeric_color_from_value cs (Num x) = colors cs ! i) \<and>
         (ts \<noteq> [] \<and> ts ! (length ts - 1) \<le> x \<longrightarrow>
            ColorSchemeNumeric_color_from_value cs (Num x) = colors cs ! (length ts - 1)) \<and>
         (\<forall>i < length ts.
            ColorSchemeNumeric_color_from_value cs (Num (ts ! i)) = colors cs ! i)"
proof (intro conjI allI impI)
  have mono: "ts ! a < ts ! b" if "a < b" "b < length ts" for a b
    using asc that by (simp add: sorted_wrt_iff_nth_less)
  have mono_le: "ts ! a \<le> ts ! b" if "a \<le> b" "b < length ts" for a b
    using mono [of a b] that by (cases "a = b") auto
  {
    assume "ts \<noteq> [] \<and> x < ts ! 0"
    then have "x < ts ! j" if "j < length ts" for j
      using mono_le [of 0 j] that by auto
    then show "ColorSchemeNumeric_color_from_value cs (Num x) = na_color cs"
      by (rule numeric_below_all [OF lim len])
  }
  {
    fix i assume h: "Suc i < length ts \<and> ts ! i \<le> x \<and> x < ts ! Suc i"
    then have "x < ts ! j" if "i < j" "j < length ts" for j
      using mono_le [of "Suc i" j] that by auto
    with h show "ColorSchemeNumeric_color_from_value cs (Num x) = colors cs ! i"
      by (intro numeric_last_threshold [OF lim len]) auto
  }
  {
    assume h: "ts \<noteq> [] \<and> ts ! (length ts - 1) \<le> x"
    then show "ColorSchemeNumeric_color_from_value cs (Num x) = colors cs ! (length ts - 1)"
      by (intro numeric_last_threshold [OF lim len]) auto
  }
  {
    fix i assume "i < length ts"
    then show "ColorSchemeNumeric_color_from_value cs (Num (ts ! i)) = colors cs ! i"
      using mono by (intro numeric_last_threshold [OF lim len]) auto
  }
qed

theorem ColorSchemeNumeric_buckets_witness:
  "sorted_wrt (<) [0, 5, 10, 15, 20, 25, 30 :: real] \<and>
   ColorSchemeNumeric_color_from_value ttColorScheme (Num 3) = ''#0868ac'' \<and>
   ColorSchemeNumeric_color_from_value ttColorScheme (Num 5) = ''#5aabac'' \<and>
   ColorSchemeNumeric_color_from_value ttColorScheme (Num 29.9) = ''#b8432e'' \<and>
   ColorSchemeNumeric_color_from_value ttColorScheme (Num 35) = ''#999999'' \<and>
   ColorSchemeNumeric_color_from_value ttColorScheme (Num (- 1)) = ''#888''"
proof -
  let ?ts = "[0, 5, 10, 15, 20, 25, 30 :: real]"
  have lim: "limits ttColorScheme = map Num ?ts"
    by (simp add: ttColorScheme_fields)
  have asc: "sorted_wrt (<) ?ts"
    by simp
  have len: "length (colors ttColorScheme) = length ?ts"
    by (simp add: ttColorScheme_fields)
  note buckets = ColorSchemeNumeric_buckets [OF lim asc len]
  from buckets [of 3] have "Suc 0 < length ?ts \<and> ?ts ! 0 \<le> 3 \<and> 3 < ?ts ! Suc 0 \<longrightarrow>
      ColorSchemeNumeric_color_from_value ttColorScheme (Num 3) = colors ttColorScheme ! 0"
    by blast
  then have v3: "ColorSchemeNumeric_color_from_value ttColorScheme (Num 3) = ''#0868ac''"
    by (simp add: ttColorScheme_fields)
  from buckets [of 0] have "1 < length ?ts \<longrightarrow>
      ColorSchemeNumeric_color_from_value ttColorScheme (Num (?ts ! 1)) = colors ttColorScheme ! 1"
    by blast
  then have v5: "ColorSchemeNumeric_color_from_value ttColorScheme (Num 5) = ''#5aabac''"
    by (simp add: ttColorScheme_fields)
  from buckets [of "29.9"] have "Suc 5 < length ?ts \<and> ?ts ! 5 \<le> 29.9 \<and> 29.9 < ?ts ! Suc 5 \<longrightarrow>
      ColorSchemeNumeric_color_from_value ttColorScheme (Num 29.9) = colors ttColorScheme ! 5"
    by blast
  then have v29: "ColorSchemeNumeric_color_from_value ttColorScheme (Num 29.9) = ''#b8432e''"
    by (simp add: ttColorScheme_fields nth_Cons')
  from buckets [of 35] have "?ts \<noteq> [] \<and> ?ts ! (length ?ts - 1) \<le> 35 \<longrightarrow>
      ColorSchemeNumeric_color_from_value ttColorScheme (Num 35) = colors ttColorScheme ! (length ?ts - 1)"
    by blast
  then have v35: "ColorSchemeNumeric_color_from_value ttColorScheme (Num 35) = ''#999999''"
    by (simp add: ttColorScheme_fields)
  from buckets [of "- 1"] have "?ts \<noteq> [] \<and> - 1 < ?ts ! 0 \<longrightarrow>
      ColorSchemeNumeric_color_from_value ttColorScheme (Num (- 1)) = na_color ttColorScheme"
    by blast
  then have vm1: "ColorSchemeNumeric_color_from_value ttColorScheme (Num (- 1)) = ''#888''"
    by (simp add: ttColorScheme_fields)
  from asc v3 v5 v29 v35 vm1 show ?thesis
    by blast
qed

text \<open>
  C6. A categorical colour scheme gives a value the colour at the last index whose key
  equals the value (among the indices that have both a key and a colour), and the
  fallback colour to a value that equals no key.
\<close>

theorem ColorSchemeCategorical_last_match:
  "(\<forall>i. i < length (limits cs) \<and> i < length (colors cs) \<and> limits cs ! i = k \<and>
        (\<forall>j. i < j \<and> j < length (limits cs) \<and> j < length (colors cs) \<longrightarrow> limits cs ! j \<noteq> k)
        \<longrightarrow> ColorSchemeCategorical_color_from_value cs k = colors cs ! i) \<and>
   (k \<notin> set (limits cs) \<longrightarrow> ColorSchemeCategorical_color_from_value cs k = na_color cs)"
proof (intro conjI allI impI)
  fix i
  assume h: "i < length (limits cs) \<and> i < length (colors cs) \<and> limits cs ! i = k \<and>
        (\<forall>j. i < j \<and> j < length (limits cs) \<and> j < length (colors cs) \<longrightarrow> limits cs ! j \<noteq> k)"
  show "ColorSchemeCategorical_color_from_value cs k = colors cs ! i"
    unfolding ColorSchemeCategorical_color_from_value_def
    by (rule fold_upt_last_wins [where i = i]) (use h in auto)
next
  assume "k \<notin> set (limits cs)"
  then have "\<not> (j < length (limits cs) \<and> k = limits cs ! j)" for j
    by auto
  then show "ColorSchemeCategorical_color_from_value cs k = na_color cs"
    unfolding ColorSchemeCategorical_color_from_value_def
    by (intro fold_upt_no_match) 
qed

theorem ColorSchemeCategorical_last_match_witness:
  "ColorSchemeCategorical_color_from_value
      \<lparr> limits = [''park'', ''school'', ''park''], colors = [''#0a0'', ''#00a'', ''#a00''],
        labels = [''Parks'', ''Schools'', ''Parks again''], na_color = ''#888'' \<rparr> ''park'' = ''#a00'' \<and>
   ColorSchemeCategorical_color_from_value
      \<lparr> limits = [''park'', ''school'', ''park''], colors = [''#0a0'', ''#00a'', ''#a00''],
        labels = [''Parks'', ''Schools'', ''Parks again''], na_color = ''#888'' \<rparr> ''school'' = ''#00a'' \<and>
   ColorSchemeCategorical_color_from_value
      \<lparr> limits = [''park'', ''school'', ''park''], colors = [''#0a0'', ''#00a'', ''#a00''],
        labels = [''Parks'', ''Schools'', ''Parks again''], na_color = ''#888'' \<rparr> ''cafe'' = ''#888''"
proof -
  let ?cs = "\<lparr> limits = [''park'', ''school'', ''park''], colors = [''#0a0'', ''#00a'', ''#a00''],
        labels = [''Parks'', ''Schools'', ''Parks again''], na_color = ''#888'' \<rparr>"
  have later: "\<forall>j. i < j \<and> j < length (limits ?cs) \<and> j < length (colors ?cs) \<longrightarrow> limits ?cs ! j \<noteq> k"
    if "\<forall>j \<in> {Suc i ..< 3}. [''park'', ''school'', ''park''] ! j \<noteq> k" for i k
    using that by auto
  have "\<forall>j \<in> {Suc 2 ..< 3}. [''park'', ''school'', ''park''] ! j \<noteq> ''park''"
    by simp
  from later [OF this] ColorSchemeCategorical_last_match [of ?cs "''park''"]
  have park: "ColorSchemeCategorical_color_from_value ?cs ''park'' = ''#a00''"
    by (auto dest!: spec [where x = 2])
  have "\<forall>j \<in> {Suc 1 ..< 3}. [''park'', ''school'', ''park''] ! j \<noteq> ''school''"
    by (simp add: atLeastLessThanSuc)
  from later [OF this] ColorSchemeCategorical_last_match [of ?cs "''school''"]
  have school: "ColorSchemeCategorical_color_from_value ?cs ''school'' = ''#00a''"
    by (auto dest!: spec [where x = 1])
  from ColorSchemeCategorical_last_match [of ?cs "''cafe''"]
  have cafe: "ColorSchemeCategorical_color_from_value ?cs ''cafe'' = ''#888''"
    by simp
  from park school cafe show ?thesis
    by blast
qed

text \<open>
  C8. The legend is the entries (colour swatch and label) of the indices of \<open>labels\<close>
  in ascending order, joined by the separator \<open><br/>\<close>: one separator between every
  two consecutive entries, none after the last. With as many colours as labels these
  are the pairs of colours and labels in the order of construction; a legend of one entry
  is that entry alone.
\<close>

theorem legend_html_entries:
  "legend_html cs = join_sep ''<br/>''
     (map (\<lambda>i. legend_entry (string_get (colors cs) i) (labels cs ! i)) [0..<length (labels cs)]) \<and>
   (length (colors cs) = length (labels cs) \<longrightarrow>
      legend_html cs = join_sep ''<br/>'' (map2 legend_entry (colors cs) (labels cs))) \<and>
   (\<forall>c l. colors cs = [c] \<and> labels cs = [l] \<longrightarrow> legend_html cs = legend_entry c l)"
proof (intro conjI allI impI)
  show "legend_html cs = join_sep ''<br/>''
     (map (\<lambda>i. legend_entry (string_get (colors cs) i) (labels cs ! i)) [0..<length (labels cs)])"
    by (rule legend_html_join)
next
  assume len: "length (colors cs) = length (labels cs)"
  have "map (\<lambda>i. legend_entry (string_get (colors cs) i) (labels cs ! i)) [0..<length (labels cs)]
      = map2 legend_entry (colors cs) (labels cs)"
    by (rule nth_equalityI) (simp_all add: len string_get_def)
  then show "legend_html cs = join_sep ''<br/>'' (map2 legend_entry (colors cs) (labels cs))"
    by (simp add: legend_html_join)
next
  fix c l
  assume "colors cs = [c] \<and> labels cs = [l]"
  then show "legend_html cs = legend_entry c l"
    by (simp add: legend_html_join string_get_def)
qed

theorem legend_html_entries_witness:
  "legend_html \<lparr> limits = [Num 0, Num 5], colors = [''#0868ac'', ''#5aabac''],
                  labels = [''Under 5 min'', ''Over 5 min''], na_color = ''#888'' \<rparr>
     = ''<b style=\"background:#0868ac\"></b> Under 5 min<br/><b style=\"background:#5aabac\"></b> Over 5 min'' \<and>
   legend_html \<lparr> limits = [Num 0], colors = [''#0868ac''],
                  labels = [''Any time''], na_color = ''#888'' \<rparr>
     = ''<b style=\"background:#0868ac\"></b> Any time''"
proof -
  let ?two = "\<lparr> limits = [Num 0, Num 5], colors = [''#0868ac'', ''#5aabac''],
                  labels = [''Under 5 min'', ''Over 5 min''], na_color = ''#888'' \<rparr>"
  let ?one = "\<lparr> limits = [Num 0], colors = [''#0868ac''],
                  labels = [''Any time''], na_color = ''#888'' \<rparr>"
  from legend_html_entries [of ?two]
  have "length (colors ?two) = length (labels ?two) \<longrightarrow>
      legend_html ?two = join_sep ''<br/>'' (map2 legend_entry (colors ?two) (labels ?two))"
    by blast
  then have two: "legend_html ?two
     = ''<b style=\"background:#0868ac\"></b> Under 5 min<br/><b style=\"background:#5aabac\"></b> Over 5 min''"
    by (simp add: legend_entry_def)
  from legend_html_entries [of ?one]
  have "colors ?one = [''#0868ac''] \<and> labels ?one = [''Any time''] \<longrightarrow>
      legend_html ?one = legend_entry ''#0868ac'' ''Any time''"
    by blast
  then have one: "legend_html ?one = ''<b style=\"background:#0868ac\"></b> Any time''"
    by (simp add: legend_entry_def)
  from two one show ?thesis
    by blast
qed

end
